theory Spec2Isabelle
  imports Main "HOL-Library.Word" "HOL-Library.Sublist"
begin

unbundle bit_operations_syntax

section \<open>Errors and outcomes\<close>

text \<open>
  Go functions of this repository return a value together with an \<open>error\<close>; a nil error is
  \<open>None\<close>. The error values that occur are the \<open>*strconv.NumError\<close> of the number parsers
  (function name, offending input, \<open>ErrSyntax\<close> or \<open>ErrRange\<close>), errors of the operating
  system (identified by their errno; \<open>os.IsNotExist\<close> recognises \<open>ENOENT\<close>), errors of the
  collaborating packages, and the two \<open>fmt.Errorf\<close> values of package \<open>distances\<close>, kept
  structured here with the numbers that the format string prints.
\<close>

datatype num_err = ErrSyntax | ErrRange

datatype error =
    NumError string string num_err
  | OSError nat
  | CollaboratorError string
  | FoundExpected int int
  | UnknownNUMANode int

definition ENOENT :: nat where
  "ENOENT = 2"

fun IsNotExist :: "error \<Rightarrow> bool" where
  "IsNotExist (OSError n) = (n = ENOENT)"
| "IsNotExist _ = False"

text \<open>A run of Go code either returns or panics (index out of range, nil dereference).\<close>

datatype 'a run = Returned 'a | Panicked

section \<open>The Go library functions that the code calls\<close>

text \<open>
  Strings are byte sequences, as in Go. \<open>int\<close> has 64 bits (\<open>strconv.IntSize = 64\<close>); the
  parsers below compute in \<open>uint64\<close> with the wrap-around written out and return values
  inside the 64-bit range, so that \<open>int\<close> and \<open>int64\<close> are modelled by the integers.
  The functions follow the standard library from Go 1.13 on (base prefixes \<open>0b\<close>, \<open>0o\<close>,
  \<open>0x\<close> and underscores in base 0).
\<close>

definition byte :: "char \<Rightarrow> int" where
  "byte c = of_char c"

definition lower :: "char \<Rightarrow> int" where
  "lower c = byte c OR 32"

definition maxUint64 :: int where
  "maxUint64 = 2 ^ 64 - 1"

text \<open>The digit value of a byte in \<open>strconv.ParseUint\<close>; \<open>None\<close> is its default branch.\<close>

definition digit_val :: "char \<Rightarrow> int option" where
  "digit_val c =
     (if byte CHR ''0'' \<le> byte c \<and> byte c \<le> byte CHR ''9'' then Some (byte c - byte CHR ''0'')
      else if byte CHR ''a'' \<le> lower c \<and> lower c \<le> byte CHR ''z''
        then Some (lower c - byte CHR ''a'' + 10)
      else None)"

text \<open>
  The digit loop of \<open>strconv.ParseUint\<close> with \<open>bitSize = 64\<close>: the running value, the
  error kind if the loop returned early, and whether an underscore was seen.
\<close>

fun parse_digits :: "int \<Rightarrow> bool \<Rightarrow> int \<Rightarrow> bool \<Rightarrow> string \<Rightarrow> int \<times> num_err option \<times> bool" where
  "parse_digits b base0 n us [] = (n, None, us)"
| "parse_digits b base0 n us (c # cs) =
     (if c = CHR ''_'' \<and> base0 then parse_digits b base0 n True cs
      else case digit_val c of
        None \<Rightarrow> (0, Some ErrSyntax, us)
      | Some d \<Rightarrow>
          if d \<ge> b then (0, Some ErrSyntax, us)
          else if n \<ge> maxUint64 div b + 1 then (maxUint64, Some ErrRange, us)
          else let m = (n * b) mod 2 ^ 64; n1 = (m + d) mod 2 ^ 64
               in if n1 < m \<or> n1 > maxUint64 then (maxUint64, Some ErrRange, us)
                  else parse_digits b base0 n1 us cs)"

text \<open>
  \<open>strconv.underscoreOK\<close>: underscores only between digits or after a base prefix. The
  state \<open>saw\<close> is one of the characters \<open>^\<close>, \<open>0\<close>, \<open>_\<close> and \<open>!\<close>, as in the library.
\<close>

fun underscore_scan :: "bool \<Rightarrow> char \<Rightarrow> string \<Rightarrow> bool" where
  "underscore_scan hex saw [] = (saw \<noteq> CHR ''_'')"
| "underscore_scan hex saw (c # cs) =
     (if (byte CHR ''0'' \<le> byte c \<and> byte c \<le> byte CHR ''9'')
         \<or> (hex \<and> byte CHR ''a'' \<le> lower c \<and> lower c \<le> byte CHR ''f'')
      then underscore_scan hex CHR ''0'' cs
      else if c = CHR ''_''
        then (if saw \<noteq> CHR ''0'' then False else underscore_scan hex CHR ''_'' cs)
      else if saw = CHR ''_'' then False
      else underscore_scan hex CHR ''!'' cs)"

definition has_base_prefix :: "string \<Rightarrow> bool" where
  "has_base_prefix s \<longleftrightarrow>
     length s \<ge> 2 \<and> s ! 0 = CHR ''0''
     \<and> (lower (s ! 1) = byte CHR ''b'' \<or> lower (s ! 1) = byte CHR ''o''
        \<or> lower (s ! 1) = byte CHR ''x'')"

definition underscoreOK :: "string \<Rightarrow> bool" where
  "underscoreOK s0 =
     (let s = (if length s0 \<ge> 1 \<and> (s0 ! 0 = CHR ''-'' \<or> s0 ! 0 = CHR ''+'') then tl s0 else s0)
      in if has_base_prefix s
         then underscore_scan (lower (s ! 1) = byte CHR ''x'') CHR ''0'' (drop 2 s)
         else underscore_scan False CHR ''^'' s)"

text \<open>
  \<open>strconv.ParseUint(s, base, 64)\<close> for the two bases the code asks for, 10 and 0 (where
  the prefix of the input chooses the base). The value is returned also with a range
  error, as the library does.
\<close>

definition ParseUint :: "string \<Rightarrow> int \<Rightarrow> int \<times> num_err option" where
  "ParseUint s bas =
     (if s = [] then (0, Some ErrSyntax)
      else
        let (b, ds) =
              (if bas = 0
               then (if s ! 0 = CHR ''0''
                     then (if length s \<ge> 3 \<and> lower (s ! 1) = byte CHR ''b'' then (2, drop 2 s)
                           else if length s \<ge> 3 \<and> lower (s ! 1) = byte CHR ''o'' then (8, drop 2 s)
                           else if length s \<ge> 3 \<and> lower (s ! 1) = byte CHR ''x'' then (16, drop 2 s)
                           else (8, drop 1 s))
                     else (10, s))
               else (bas, s))
        in case parse_digits b (bas = 0) 0 False ds of
             (n, Some e, us) \<Rightarrow> (n, Some e)
           | (n, None, us) \<Rightarrow>
               if us \<and> \<not> underscoreOK s then (0, Some ErrSyntax) else (n, None))"

text \<open>\<open>strconv.ParseInt(s, base, 64)\<close>: a range error comes with the nearest bound.\<close>

definition ParseInt :: "string \<Rightarrow> int \<Rightarrow> int \<times> error option" where
  "ParseInt s0 bas =
     (if s0 = [] then (0, Some (NumError ''ParseInt'' s0 ErrSyntax))
      else
        let neg = (s0 ! 0 = CHR ''-'');
            s = (if s0 ! 0 = CHR ''+'' \<or> s0 ! 0 = CHR ''-'' then tl s0 else s0)
        in case ParseUint s bas of
             (un, Some ErrSyntax) \<Rightarrow> (0, Some (NumError ''ParseInt'' s0 ErrSyntax))
           | (un, _) \<Rightarrow>
               if \<not> neg \<and> un \<ge> 2 ^ 63 then (2 ^ 63 - 1, Some (NumError ''ParseInt'' s0 ErrRange))
               else if neg \<and> un > 2 ^ 63 then (- (2 ^ 63), Some (NumError ''ParseInt'' s0 ErrRange))
               else (if neg then - un else un, None))"

text \<open>The fast path of \<open>strconv.Atoi\<close> for inputs of fewer than 19 bytes.\<close>

fun atoi_digits :: "int \<Rightarrow> string \<Rightarrow> int option" where
  "atoi_digits n [] = Some n"
| "atoi_digits n (c # cs) =
     (let ch = (byte c + 256 - byte CHR ''0'') mod 256
      in if ch > 9 then None else atoi_digits (n * 10 + ch) cs)"

definition Atoi :: "string \<Rightarrow> int \<times> error option" where
  "Atoi s0 =
     (if 0 < length s0 \<and> length s0 < 19 then
        let signed = (s0 ! 0 = CHR ''-'' \<or> s0 ! 0 = CHR ''+'');
            s = (if signed then tl s0 else s0)
        in if signed \<and> length s < 1 then (0, Some (NumError ''Atoi'' s0 ErrSyntax))
           else case atoi_digits 0 s of
                  None \<Rightarrow> (0, Some (NumError ''Atoi'' s0 ErrSyntax))
                | Some n \<Rightarrow> (if s0 ! 0 = CHR ''-'' then - n else n, None)
      else case ParseInt s0 10 of
             (i, Some (NumError f num k)) \<Rightarrow> (i, Some (NumError ''Atoi'' num k))
           | (i, e) \<Rightarrow> (i, e))"

text \<open>
  \<open>strings.Split(s, sep)\<close> for a non-empty separator: the pieces between the
  occurrences of \<open>sep\<close>, found from the left. \<open>tok\<close> is the current piece, reversed.
\<close>

function genSplit :: "string \<Rightarrow> string \<Rightarrow> string \<Rightarrow> string list" where
  "genSplit sep tok s =
     (if sep \<noteq> [] \<and> prefix sep s then rev tok # genSplit sep [] (drop (length sep) s)
      else case s of
             [] \<Rightarrow> [rev tok]
           | x # xs \<Rightarrow> genSplit sep (x # tok) xs)"
  by pat_completeness auto
termination
  by (relation "measure (\<lambda>(sep, tok, s). length s)") (auto simp: prefix_def)

declare genSplit.simps [simp del]

definition Split :: "string \<Rightarrow> string \<Rightarrow> string list" where
  "Split s sep = genSplit sep [] s"

text \<open>
  \<open>strings.TrimSpace\<close> removes the leading and trailing white space of
  \<open>unicode.IsSpace\<close>. On byte strings these are the UTF-8 encodings of the code points
  U+0009 to U+000D, U+0020, U+0085, U+00A0, U+1680, U+2000 to U+200A, U+2028, U+2029,
  U+202F, U+205F and U+3000.
\<close>

definition space_runes :: "string list" where
  "space_runes =
     [[CHR 0x09], [CHR 0x0A], [CHR 0x0B], [CHR 0x0C], [CHR 0x0D], [CHR 0x20],
      [CHR 0xC2, CHR 0x85], [CHR 0xC2, CHR 0xA0], [CHR 0xE1, CHR 0x9A, CHR 0x80],
      [CHR 0xE2, CHR 0x80, CHR 0x80], [CHR 0xE2, CHR 0x80, CHR 0x81],
      [CHR 0xE2, CHR 0x80, CHR 0x82], [CHR 0xE2, CHR 0x80, CHR 0x83],
      [CHR 0xE2, CHR 0x80, CHR 0x84], [CHR 0xE2, CHR 0x80, CHR 0x85],
      [CHR 0xE2, CHR 0x80, CHR 0x86], [CHR 0xE2, CHR 0x80, CHR 0x87],
      [CHR 0xE2, CHR 0x80, CHR 0x88], [CHR 0xE2, CHR 0x80, CHR 0x89],
      [CHR 0xE2, CHR 0x80, CHR 0x8A], [CHR 0xE2, CHR 0x80, CHR 0xA8],
      [CHR 0xE2, CHR 0x80, CHR 0xA9], [CHR 0xE2, CHR 0x80, CHR 0xAF],
      [CHR 0xE2, CHR 0x81, CHR 0x9F], [CHR 0xE3, CHR 0x80, CHR 0x80]]"

function trim_runes :: "string list \<Rightarrow> string \<Rightarrow> string" where
  "trim_runes rs s =
     (case find (\<lambda>r. r \<noteq> [] \<and> prefix r s) rs of
        None \<Rightarrow> s
      | Some r \<Rightarrow> trim_runes rs (drop (length r) s))"
  by pat_completeness auto
termination
  by (relation "measure (\<lambda>(rs, s). length s)") (auto simp: find_Some_iff prefix_def)

declare trim_runes.simps [simp del]

definition TrimSpace :: "string \<Rightarrow> string" where
  "TrimSpace s = rev (trim_runes (map rev space_runes) (rev (trim_runes space_runes s)))"

text \<open>
  \<open>filepath.Clean\<close>, \<open>filepath.Join\<close> and \<open>filepath.Base\<close> on Unix paths (separator
  \<open>/\<close>, no volume names). \<open>Clean\<close> works on the elements between separators: empty
  elements and \<open>.\<close> are dropped, \<open>..\<close> removes the element before it, and where there
  is none it is kept in a relative path (\<open>dd\<close> counts these) and dropped in a rooted one.
\<close>

fun clean_elems :: "bool \<Rightarrow> string list \<Rightarrow> nat \<Rightarrow> string list \<Rightarrow> string list" where
  "clean_elems rooted [] dd out = replicate dd ''..'' @ out"
| "clean_elems rooted (e # es) dd out =
     (if e = [] \<or> e = ''.'' then clean_elems rooted es dd out
      else if e = ''..'' then
        (if out \<noteq> [] then clean_elems rooted es dd (butlast out)
         else if \<not> rooted then clean_elems rooted es (Suc dd) out
         else clean_elems rooted es dd out)
      else clean_elems rooted es dd (out @ [e]))"

fun strings_Join :: "string list \<Rightarrow> string \<Rightarrow> string" where
  "strings_Join [] sep = []"
| "strings_Join [e] sep = e"
| "strings_Join (e # es) sep = e @ sep @ strings_Join es sep"

definition Clean :: "string \<Rightarrow> string" where
  "Clean path =
     (if path = [] then ''.''
      else
        let rooted = (path ! 0 = CHR ''/'');
            out = strings_Join (clean_elems rooted (Split path ''/'') 0 []) ''/''
        in if rooted then ''/'' @ out else if out = [] then ''.'' else out)"

definition Join :: "string \<Rightarrow> string \<Rightarrow> string" where
  "Join a b =
     (if a \<noteq> [] then Clean (strings_Join [a, b] ''/'')
      else if b \<noteq> [] then Clean b
      else [])"

definition Base :: "string \<Rightarrow> string" where
  "Base path =
     (if path = [] then ''.''
      else
        let stripped = rev (dropWhile (\<lambda>c. c = CHR ''/'') (rev path));
            elem = rev (takeWhile (\<lambda>c. c \<noteq> CHR ''/'') (rev stripped))
        in if elem = [] then ''/'' else elem)"

section \<open>Package distances\<close>

definition distanceSeparator :: string where
  "distanceSeparator = '' ''"

record nodeDistances =
  nd_values :: "int list"

text \<open>
  The loop of \<open>nodeDistancesFromString\<close> over \<open>dists\<close>, from index \<open>idx\<close>; it stores into
  the slice made with \<open>numaNodes\<close> elements. A store outside the slice is a run-time
  panic.
\<close>

fun store_values ::
  "nat \<Rightarrow> string list \<Rightarrow> nodeDistances \<Rightarrow> (nodeDistances \<times> error option) run" where
  "store_values idx [] ret = Returned (ret, None)"
| "store_values idx (dist # rest) ret =
     (case Atoi dist of
        (val, Some err) \<Rightarrow> Returned (ret, Some err)
      | (val, None) \<Rightarrow>
          if idx < length (nd_values ret)
          then store_values (Suc idx) rest (ret\<lparr>nd_values := (nd_values ret)[idx := val]\<rparr>)
          else Panicked)"

text \<open>
  \<open>make([]int, numaNodes, numaNodes)\<close> is reached with \<open>numaNodes\<close> equal to the
  length of \<open>dists\<close>, which is not negative.
\<close>

definition nodeDistancesFromString :: "int \<Rightarrow> string \<Rightarrow> (nodeDistances \<times> error option) run" where
  "nodeDistancesFromString numaNodes data =
     (let ret = \<lparr>nd_values = []\<rparr>;
          dists = Split data distanceSeparator
      in if int (length dists) \<noteq> numaNodes
         then Returned (ret, Some (FoundExpected (int (length dists)) numaNodes))
         else store_values 0 dists (ret\<lparr>nd_values := replicate (nat numaNodes) 0\<rparr>))"

record Distances =
  onlineNodes :: "int \<rightharpoonup> bool"
  byNode :: "nodeDistances list"

text \<open>Indexing a slice with an \<open>int\<close>: out of range is a run-time panic.\<close>

definition index :: "'a list \<Rightarrow> int \<Rightarrow> 'a run" where
  "index xs i = (if 0 \<le> i \<and> i < int (length xs) then Returned (xs ! nat i) else Panicked)"

definition BetweenNodes :: "Distances \<Rightarrow> int \<Rightarrow> int \<Rightarrow> (int \<times> error option) run" where
  "BetweenNodes d from to =
     (if onlineNodes d from = None then Returned (- 1, Some (UnknownNUMANode from))
      else if onlineNodes d to = None then Returned (- 1, Some (UnknownNUMANode to))
      else case index (byNode d) from of
             Panicked \<Rightarrow> Panicked
           | Returned nd \<Rightarrow>
               (case index (nd_values nd) to of
                  Panicked \<Rightarrow> Panicked
                | Returned v \<Rightarrow> Returned (v, None)))"

text \<open>
  The two collaborators of \<open>NewDistancesFromSysfs\<close> live in packages \<open>numa\<close> and
  \<open>sysfs\<close>, outside the files verified here, and are parameters: \<open>NewNodesFromSysFS\<close>
  gives the online node IDs in enumeration order (field \<open>Online\<close>), and \<open>ForNode_ReadFile\<close>
  gives the content of a file of a node, \<open>sysfs.New(path).ForNode(id).ReadFile(name)\<close>.
\<close>

record collaborators =
  NewNodesFromSysFS :: "string \<Rightarrow> error + int list"
  ForNode_ReadFile :: "string \<Rightarrow> int \<Rightarrow> string \<Rightarrow> error + string"

text \<open>The loop of \<open>NewDistancesFromSysfs\<close> over \<open>nodes.Online\<close>.\<close>

fun read_nodes ::
  "collaborators \<Rightarrow> string \<Rightarrow> int \<Rightarrow> int list \<Rightarrow> Distances \<Rightarrow> (error + Distances) run" where
  "read_nodes env sysfsPath n [] dist = Returned (Inr dist)"
| "read_nodes env sysfsPath n (nodeID # rest) dist =
     (let dist1 = dist\<lparr>onlineNodes := (onlineNodes dist)(nodeID \<mapsto> True)\<rparr>
      in case ForNode_ReadFile env sysfsPath nodeID ''distance'' of
           Inl err \<Rightarrow> Returned (Inl err)
         | Inr distData \<Rightarrow>
             (case nodeDistancesFromString n distData of
                Panicked \<Rightarrow> Panicked
              | Returned (nodeDist, Some err) \<Rightarrow> Returned (Inl err)
              | Returned (nodeDist, None) \<Rightarrow>
                  read_nodes env sysfsPath n rest (dist1\<lparr>byNode := byNode dist1 @ [nodeDist]\<rparr>)))"

definition NewDistancesFromSysfs :: "collaborators \<Rightarrow> string \<Rightarrow> (error + Distances) run" where
  "NewDistancesFromSysfs env sysfsPath =
     (case NewNodesFromSysFS env sysfsPath of
        Inl err \<Rightarrow> Returned (Inl err)
      | Inr online \<Rightarrow>
          read_nodes env sysfsPath (int (length online)) online
            \<lparr>onlineNodes = Map.empty, byNode = []\<rparr>)"

section \<open>Package pcidev\<close>

text \<open>
  The file system is read through four calls, \<open>ioutil.ReadDir\<close> (the names of the
  entries, which it sorts), \<open>os.Stat\<close> (only its error is looked at), \<open>os.Readlink\<close> and
  \<open>ioutil.ReadFile\<close>; what they answer for a path is the state of the machine.
\<close>

record filesystem =
  ReadDir :: "string \<Rightarrow> error + string list"
  Stat :: "string \<Rightarrow> error option"
  Readlink :: "string \<Rightarrow> error + string"
  ReadFile :: "string \<Rightarrow> error + string"

definition PathBusPCIDevices :: string where
  "PathBusPCIDevices = ''bus/pci/devices/''"

definition NUMANodeUnknown :: int where
  "NUMANodeUnknown = - 1"

record SRIOVDeviceInfo =
  IsPhysFn :: bool
  NumVFS :: int
  IsVFn :: bool
  ParentFn :: string
  address :: string
  numaNode :: int
  devClass :: int
  vendor :: int
  device :: int
  sysfsPath :: string

text \<open>
  \<open>SRIOVDeviceInfo\<close> is the only implementation of the interface \<open>PCIDeviceInfo\<close>, so a
  \<open>PCIDeviceInfoList\<close> is a list of these records.
\<close>

definition NUMANode :: "SRIOVDeviceInfo \<Rightarrow> int" where
  "NUMANode sdi = numaNode sdi"

definition Address :: "SRIOVDeviceInfo \<Rightarrow> string" where
  "Address sdi = address sdi"

record PCIDevices =
  Items :: "SRIOVDeviceInfo list"

definition readHexInt64 :: "filesystem \<Rightarrow> string \<Rightarrow> int \<times> error option" where
  "readHexInt64 fs path =
     (case ReadFile fs path of
        Inl err \<Rightarrow> (0, Some err)
      | Inr content \<Rightarrow> ParseInt (TrimSpace content) 0)"

definition readInt :: "filesystem \<Rightarrow> string \<Rightarrow> int \<times> error option" where
  "readInt fs path =
     (case ReadFile fs path of
        Inl err \<Rightarrow> (0, Some err)
      | Inr content \<Rightarrow> Atoi (TrimSpace content))"

text \<open>The loop of \<open>FindByAddress\<close>; without a match the zero value comes with \<open>False\<close>.\<close>

fun find_address :: "SRIOVDeviceInfo list \<Rightarrow> string \<Rightarrow> SRIOVDeviceInfo \<times> bool" where
  "find_address [] addr =
     (\<lparr>IsPhysFn = False, NumVFS = 0, IsVFn = False, ParentFn = [], address = [],
       numaNode = 0, devClass = 0, vendor = 0, device = 0, sysfsPath = []\<rparr>, False)"
| "find_address (devInfo # rest) addr =
     (if Address devInfo = addr then (devInfo, True) else find_address rest addr)"

definition FindByAddress :: "PCIDevices \<Rightarrow> string \<Rightarrow> SRIOVDeviceInfo \<times> bool" where
  "FindByAddress pd addr = find_address (Items pd) addr"

text \<open>The loop of \<open>PerNUMA\<close>; a key that the map does not have reads as the nil slice.\<close>

fun group_devices ::
  "SRIOVDeviceInfo list \<Rightarrow> (int \<rightharpoonup> SRIOVDeviceInfo list) \<Rightarrow> (int \<rightharpoonup> SRIOVDeviceInfo list)" where
  "group_devices [] numaNodePCIDevs = numaNodePCIDevs"
| "group_devices (devInfo # rest) numaNodePCIDevs =
     (let nodeNum = NUMANode devInfo;
          pciDevs = (case numaNodePCIDevs nodeNum of None \<Rightarrow> [] | Some l \<Rightarrow> l)
      in group_devices rest (numaNodePCIDevs(nodeNum \<mapsto> pciDevs @ [devInfo])))"

definition PerNUMA :: "PCIDevices \<Rightarrow> (int \<rightharpoonup> SRIOVDeviceInfo list)" where
  "PerNUMA pd = group_devices (Items pd) Map.empty"

text \<open>
  The body of the loop of \<open>NewPCIDevices\<close> for one directory entry: the device, or the
  error with which the function returns. The error of reading \<open>numa_node\<close> is assigned
  to \<open>err\<close> and overwritten by the next read, so only the number takes part.
\<close>

definition scan_entry :: "filesystem \<Rightarrow> string \<Rightarrow> string \<Rightarrow> error + SRIOVDeviceInfo" where
  "scan_entry fs sysfsDir entry =
     (let devPath = Join sysfsDir entry;
          numvfsPath = Join devPath ''sriov_numvfs''
      in case (case Stat fs numvfsPath of
                 None \<Rightarrow> Inr (True, fst (readInt fs numvfsPath))
               | Some err \<Rightarrow> if \<not> IsNotExist err then Inl err else Inr (False, 0)) of
           Inl err \<Rightarrow> Inl err
         | Inr (isPhysFn, numVfs) \<Rightarrow>
             let physFnPath = Join devPath ''physfn''
             in case (case Stat fs physFnPath of
                        None \<Rightarrow>
                          Inr (True, case Readlink fs physFnPath of
                                       Inr dest \<Rightarrow> Base dest
                                     | Inl err \<Rightarrow> [])
                      | Some err \<Rightarrow> if \<not> IsNotExist err then Inl err else Inr (False, [])) of
                  Inl err \<Rightarrow> Inl err
                | Inr (isVFn, parentFn) \<Rightarrow>
                    let nodeNum = fst (readInt fs (Join devPath ''numa_node''))
                    in case readHexInt64 fs (Join devPath ''class'') of
                         (cls, Some err) \<Rightarrow> Inl err
                       | (cls, None) \<Rightarrow>
                           (case readHexInt64 fs (Join devPath ''vendor'') of
                              (ven, Some err) \<Rightarrow> Inl err
                            | (ven, None) \<Rightarrow>
                                (case readHexInt64 fs (Join devPath ''device'') of
                                   (dev, Some err) \<Rightarrow> Inl err
                                 | (dev, None) \<Rightarrow>
                                     Inr \<lparr>IsPhysFn = isPhysFn, NumVFS = numVfs, IsVFn = isVFn,
                                          ParentFn = parentFn, address = entry,
                                          numaNode = nodeNum, devClass = drop_bit 8 cls,
                                          vendor = ven, device = dev, sysfsPath = devPath\<rparr>)))"

text \<open>The loop of \<open>NewPCIDevices\<close> over the directory entries, appending to \<open>allPCIDevs\<close>.\<close>

fun scan_entries ::
  "filesystem \<Rightarrow> string \<Rightarrow> string list \<Rightarrow> SRIOVDeviceInfo list \<Rightarrow> error + SRIOVDeviceInfo list" where
  "scan_entries fs sysfsDir [] allPCIDevs = Inr allPCIDevs"
| "scan_entries fs sysfsDir (entry # rest) allPCIDevs =
     (case scan_entry fs sysfsDir entry of
        Inl err \<Rightarrow> Inl err
      | Inr devInfo \<Rightarrow> scan_entries fs sysfsDir rest (allPCIDevs @ [devInfo]))"

definition NewPCIDevices :: "filesystem \<Rightarrow> string \<Rightarrow> error + PCIDevices" where
  "NewPCIDevices fs sysfs =
     (let sysfsDir = Join sysfs PathBusPCIDevices
      in case ReadDir fs sysfsDir of
           Inl err \<Rightarrow> Inl err
         | Inr entries \<Rightarrow>
             (case scan_entries fs sysfsDir entries [] of
                Inl err \<Rightarrow> Inl err
              | Inr allPCIDevs \<Rightarrow> Inr \<lparr>Items = allPCIDevs\<rparr>))"

section \<open>Package fakesysfs\<close>

text \<open>
  Trees are objects on the heap, reached through pointers: \<open>Add\<close> changes its receiver and
  returns a pointer to a new object. The heap maps addresses to objects; \<open>next_addr\<close> is
  the address of the next allocation. A pointer that the heap does not hold (the nil
  pointer) makes a method call panic. \<open>attrs\<close> is \<open>None\<close> for a nil map.
\<close>

type_synonym addr = nat

record tree =
  name :: string
  attrs :: "(string \<rightharpoonup> string) option"
  items :: "addr list"

record heap =
  objects :: "addr \<rightharpoonup> tree"
  next_addr :: addr

definition NewTree :: "heap \<Rightarrow> string \<Rightarrow> (string \<rightharpoonup> string) option \<Rightarrow> addr \<times> heap" where
  "NewTree h nm ats =
     (next_addr h,
      h\<lparr>objects := (objects h)(next_addr h \<mapsto> \<lparr>name = nm, attrs = ats, items = []\<rparr>),
        next_addr := Suc (next_addr h)\<rparr>)"

definition Add :: "heap \<Rightarrow> addr \<Rightarrow> string \<Rightarrow> (string \<rightharpoonup> string) option \<Rightarrow> (addr \<times> heap) run" where
  "Add h t nm ats =
     (let (n, h1) = NewTree h nm ats
      in case objects h1 t of
           None \<Rightarrow> Panicked
         | Some obj \<Rightarrow> Returned (n, h1\<lparr>objects := (objects h1)(t \<mapsto> obj\<lparr>items := items obj @ [n]\<rparr>)\<rparr>))"

record FakeSysfs =
  base :: string
  root :: addr

definition NewFakeSysfs :: "heap \<Rightarrow> string \<Rightarrow> FakeSysfs \<times> heap" where
  "NewFakeSysfs h b = (let (r, h1) = NewTree h ''_'' None in (\<lparr>base = b, root = r\<rparr>, h1))"

text \<open>The loop of \<open>AddTree\<close>, from the current position \<open>pos\<close>.\<close>

fun add_entries :: "heap \<Rightarrow> addr \<Rightarrow> string list \<Rightarrow> (addr \<times> heap) run" where
  "add_entries h pos [] = Returned (pos, h)"
| "add_entries h pos (entry # rest) =
     (case Add h pos entry None of
        Panicked \<Rightarrow> Panicked
      | Returned (pos1, h1) \<Rightarrow> add_entries h1 pos1 rest)"

definition AddTree :: "heap \<Rightarrow> FakeSysfs \<Rightarrow> string list \<Rightarrow> (addr \<times> heap) run" where
  "AddTree h fs entries = add_entries h (root fs) entries"

text \<open>
  The specification's reading of \<open>AddTree\<close>, for comparison: the chained calls
  \<open>root.Add(e1, nil).Add(e2, nil). ... .Add(en, nil)\<close>. The last call is made on the
  handle that the chain before it returns, in the heap that the chain leaves.
\<close>

fun chained_rev :: "heap \<Rightarrow> addr \<Rightarrow> string list \<Rightarrow> (addr \<times> heap) run" where
  "chained_rev h r [] = Returned (r, h)"
| "chained_rev h r (e # before) =
     (case chained_rev h r before of
        Panicked \<Rightarrow> Panicked
      | Returned (t, h1) \<Rightarrow> Add h1 t e None)"

definition chained_Add :: "heap \<Rightarrow> addr \<Rightarrow> string list \<Rightarrow> (addr \<times> heap) run" where
  "chained_Add h r es = chained_rev h r (rev es)"

section \<open>Fixtures and auxiliary notions\<close>

text \<open>
  What the loop of \<open>NewDistancesFromSysfs\<close> meets at one node: the error with which it
  returns there, if any.
\<close>

definition node_error :: "collaborators \<Rightarrow> string \<Rightarrow> int \<Rightarrow> int \<Rightarrow> error option" where
  "node_error env sysfs n nodeID =
     (case ForNode_ReadFile env sysfs nodeID ''distance'' of
        Inl err \<Rightarrow> Some err
      | Inr distData \<Rightarrow>
          (case nodeDistancesFromString n distData of
             Returned (nodeDist, err) \<Rightarrow> err
           | Panicked \<Rightarrow> None))"

text \<open>Two online nodes 0 and 1 with the distance files \<open>10 20\<close> and \<open>20 10\<close>.\<close>

definition two_nodes :: collaborators where
  "two_nodes =
     \<lparr>NewNodesFromSysFS = (\<lambda>p. Inr [0, 1]),
      ForNode_ReadFile = (\<lambda>p nodeID f. if nodeID = 0 then Inr ''10 20'' else Inr ''20 10'')\<rparr>"

text \<open>The same two nodes and files, enumerated as node 1 and then node 0.\<close>

definition two_nodes_reversed :: collaborators where
  "two_nodes_reversed =
     \<lparr>NewNodesFromSysFS = (\<lambda>p. Inr [1, 0]),
      ForNode_ReadFile = (\<lambda>p nodeID f. if nodeID = 0 then Inr ''10 20'' else Inr ''20 10'')\<rparr>"

text \<open>The same files on a machine whose online nodes are 0 and 2.\<close>

definition sparse_nodes :: collaborators where
  "sparse_nodes =
     \<lparr>NewNodesFromSysFS = (\<lambda>p. Inr [0, 2]),
      ForNode_ReadFile = (\<lambda>p nodeID f. if nodeID = 0 then Inr ''10 20'' else Inr ''20 10'')\<rparr>"

text \<open>A machine whose only online node is node 1.\<close>

definition single_node_1 :: collaborators where
  "single_node_1 =
     \<lparr>NewNodesFromSysFS = (\<lambda>p. Inr [1]), ForNode_ReadFile = (\<lambda>p nodeID f. Inr ''10'')\<rparr>"

text \<open>Node 1 has one token for two nodes; node 0 before it has two tokens that are no numbers.\<close>

definition early_failure :: collaborators where
  "early_failure =
     \<lparr>NewNodesFromSysFS = (\<lambda>p. Inr [0, 1]),
      ForNode_ReadFile = (\<lambda>p nodeID f. if nodeID = 0 then Inr ''a b'' else Inr ''10'')\<rparr>"

text \<open>Node 1 has one token for two nodes; node 0 before it is well formed.\<close>

definition short_vector :: collaborators where
  "short_vector =
     \<lparr>NewNodesFromSysFS = (\<lambda>p. Inr [0, 1]),
      ForNode_ReadFile = (\<lambda>p nodeID f. if nodeID = 0 then Inr ''10 20'' else Inr ''10'')\<rparr>"

text \<open>
  \<open>os.Stat\<close> on an optional file lets the scan of a device go on: the file is there, or
  the error says that it does not exist.
\<close>

definition stat_ok :: "filesystem \<Rightarrow> string \<Rightarrow> bool" where
  "stat_ok fs path = (case Stat fs path of None \<Rightarrow> True | Some err \<Rightarrow> IsNotExist err)"

text \<open>
  The steps of the scan of one device directory that can make \<open>NewPCIDevices\<close> return an
  error all succeed: the two \<open>os.Stat\<close> calls, and reading \<open>class\<close>, \<open>vendor\<close> and
  \<open>device\<close>. Neither the content of \<open>sriov_numvfs\<close> and \<open>numa_node\<close> nor the answer of
  \<open>os.Readlink\<close> takes part.
\<close>

definition entry_ok :: "filesystem \<Rightarrow> string \<Rightarrow> bool" where
  "entry_ok fs devPath \<longleftrightarrow>
     stat_ok fs (Join devPath ''sriov_numvfs'')
     \<and> stat_ok fs (Join devPath ''physfn'')
     \<and> snd (readHexInt64 fs (Join devPath ''class'')) = None
     \<and> snd (readHexInt64 fs (Join devPath ''vendor'')) = None
     \<and> snd (readHexInt64 fs (Join devPath ''device'')) = None"

text \<open>
  A file system under \<open>/sys\<close> given by the names in \<open>bus/pci/devices\<close>, the regular files
  with their contents and the symbolic links with their targets. Reading the link of a
  path that is no link fails with \<open>EINVAL\<close>.
\<close>

definition fixture_fs ::
  "string list \<Rightarrow> (string \<times> string) list \<Rightarrow> (string \<times> string) list \<Rightarrow> filesystem" where
  "fixture_fs entries files links =
     \<lparr>ReadDir = (\<lambda>p. if p = ''/sys/bus/pci/devices'' then Inr entries
                      else Inl (OSError ENOENT)),
      Stat = (\<lambda>p. if map_of files p \<noteq> None \<or> map_of links p \<noteq> None then None
                   else Some (OSError ENOENT)),
      Readlink = (\<lambda>p. case map_of links p of
                         Some target \<Rightarrow> Inr target
                       | None \<Rightarrow> Inl (OSError 22)),
      ReadFile = (\<lambda>p. case map_of files p of
                         Some content \<Rightarrow> Inr content
                       | None \<Rightarrow> Inl (OSError ENOENT))\<rparr>"

text \<open>One device whose \<open>numa_node\<close> file holds \<open>abc\<close>.\<close>

definition malformed_numa :: filesystem where
  "malformed_numa =
     fixture_fs [''0000:00:01.0'']
       [(''/sys/bus/pci/devices/0000:00:01.0/numa_node'', ''abc'' @ [CHR 0x0A]),
        (''/sys/bus/pci/devices/0000:00:01.0/class'', ''0x020000'' @ [CHR 0x0A]),
        (''/sys/bus/pci/devices/0000:00:01.0/vendor'', ''0x8086'' @ [CHR 0x0A]),
        (''/sys/bus/pci/devices/0000:00:01.0/device'', ''0x1521'' @ [CHR 0x0A])]
       []"

text \<open>
  A physical function with four virtual functions configured and one of its virtual
  functions, both without a NUMA node.
\<close>

definition sriov_machine :: filesystem where
  "sriov_machine =
     fixture_fs [''0000:01:00.0'', ''0000:01:10.0'']
       [(''/sys/bus/pci/devices/0000:01:00.0/sriov_numvfs'', ''4'' @ [CHR 0x0A]),
        (''/sys/bus/pci/devices/0000:01:00.0/numa_node'', ''-1'' @ [CHR 0x0A]),
        (''/sys/bus/pci/devices/0000:01:00.0/class'', ''0x020000'' @ [CHR 0x0A]),
        (''/sys/bus/pci/devices/0000:01:00.0/vendor'', ''0x8086'' @ [CHR 0x0A]),
        (''/sys/bus/pci/devices/0000:01:00.0/device'', ''0x1521'' @ [CHR 0x0A]),
        (''/sys/bus/pci/devices/0000:01:10.0/numa_node'', ''-1'' @ [CHR 0x0A]),
        (''/sys/bus/pci/devices/0000:01:10.0/class'', ''0x020000'' @ [CHR 0x0A]),
        (''/sys/bus/pci/devices/0000:01:10.0/vendor'', ''0x8086'' @ [CHR 0x0A]),
        (''/sys/bus/pci/devices/0000:01:10.0/device'', ''0x1520'' @ [CHR 0x0A])]
       [(''/sys/bus/pci/devices/0000:01:10.0/physfn'', ''../0000:01:00.0'')]"

definition sriov_devices :: PCIDevices where
  "sriov_devices =
     \<lparr>Items = [\<lparr>IsPhysFn = True, NumVFS = 4, IsVFn = False, ParentFn = [],
                 address = ''0000:01:00.0'', numaNode = - 1, devClass = 512,
                 vendor = 32902, device = 5409,
                 sysfsPath = ''/sys/bus/pci/devices/0000:01:00.0''\<rparr>,
                \<lparr>IsPhysFn = False, NumVFS = 0, IsVFn = True, ParentFn = ''0000:01:00.0'',
                 address = ''0000:01:10.0'', numaNode = - 1, devClass = 512,
                 vendor = 32902, device = 5408,
                 sysfsPath = ''/sys/bus/pci/devices/0000:01:10.0''\<rparr>]\<rparr>"

text \<open>
  A virtual function whose \<open>physfn\<close> link points to a device that is not there:
  \<open>os.Readlink\<close> reads the link, and \<open>os.Stat\<close>, which follows it, answers \<open>ENOENT\<close>.
\<close>

definition dangling_link_tree :: filesystem where
  "dangling_link_tree =
     fixture_fs [''0000:01:10.0'']
       [(''/sys/bus/pci/devices/0000:01:10.0/numa_node'', ''0'' @ [CHR 0x0A]),
        (''/sys/bus/pci/devices/0000:01:10.0/class'', ''0x020000'' @ [CHR 0x0A]),
        (''/sys/bus/pci/devices/0000:01:10.0/vendor'', ''0x8086'' @ [CHR 0x0A]),
        (''/sys/bus/pci/devices/0000:01:10.0/device'', ''0x1520'' @ [CHR 0x0A])]
       [(''/sys/bus/pci/devices/0000:01:10.0/physfn'', ''../0000:01:00.0'')]"

definition dangling_physfn :: filesystem where
  "dangling_physfn =
     dangling_link_tree
       \<lparr>Stat := (\<lambda>p. if p = ''/sys/bus/pci/devices/0000:01:10.0/physfn''
                     then Some (OSError ENOENT) else Stat dangling_link_tree p)\<rparr>"


text \<open>A device whose \<open>physfn\<close> entry is a regular file, as the tree builder writes it.\<close>

definition physfn_not_a_link :: filesystem where
  "physfn_not_a_link =
     fixture_fs [''0000:01:10.0'']
       [(''/sys/bus/pci/devices/0000:01:10.0/physfn'', ''0000:01:00.0''),
        (''/sys/bus/pci/devices/0000:01:10.0/numa_node'', ''0'' @ [CHR 0x0A]),
        (''/sys/bus/pci/devices/0000:01:10.0/class'', ''0x020000'' @ [CHR 0x0A]),
        (''/sys/bus/pci/devices/0000:01:10.0/vendor'', ''0x8086'' @ [CHR 0x0A]),
        (''/sys/bus/pci/devices/0000:01:10.0/device'', ''0x1520'' @ [CHR 0x0A])]
       []"

text \<open>Four devices on the NUMA nodes 0, 0, 1 and -1.\<close>

definition dev_on :: "string \<Rightarrow> int \<Rightarrow> SRIOVDeviceInfo" where
  "dev_on addr node =
     \<lparr>IsPhysFn = False, NumVFS = 0, IsVFn = False, ParentFn = [], address = addr,
      numaNode = node, devClass = 512, vendor = 32902, device = 5409,
      sysfsPath = ''/sys/bus/pci/devices/'' @ addr\<rparr>"

definition four_devices :: PCIDevices where
  "four_devices =
     \<lparr>Items = [dev_on ''0000:00:01.0'' 0, dev_on ''0000:00:02.0'' 0,
               dev_on ''0000:80:01.0'' 1, dev_on ''0000:ff:01.0'' (- 1)]\<rparr>"

text \<open>
  The allocator hands out addresses in increasing order, so every object of the heap
  lies below \<open>next_addr\<close> and a new object never takes the place of an old one.
\<close>

definition wf_heap :: "heap \<Rightarrow> bool" where
  "wf_heap h \<longleftrightarrow> (\<forall>a\<in>dom (objects h). a < next_addr h)"

definition empty_heap :: heap where
  "empty_heap = \<lparr>objects = Map.empty, next_addr = 0\<rparr>"

definition fresh_sysfs :: "FakeSysfs \<times> heap" where
  "fresh_sysfs = NewFakeSysfs empty_heap ''/tmp/fakesysfs''"

definition built_heap :: heap where
  "built_heap =
     \<lparr>objects = [0 \<mapsto> \<lparr>name = ''_'', attrs = None, items = [1]\<rparr>,
                 1 \<mapsto> \<lparr>name = ''bus'', attrs = None, items = [2]\<rparr>,
                 2 \<mapsto> \<lparr>name = ''pci'', attrs = None, items = []\<rparr>],
      next_addr = 3\<rparr>"

section \<open>Properties of package distances\<close>

subsection \<open>Construction never panics\<close>

text \<open>
  Every store of \<open>nodeDistancesFromString\<close> is inside the slice, whose length is the
  number of tokens: the loop returns, with as many values as it was asked for.
\<close>

lemma store_values_returns:
  "idx + length dists \<le> length (nd_values ret) \<Longrightarrow>
   \<exists>r e. store_values idx dists ret = Returned (r, e)
          \<and> length (nd_values r) = length (nd_values ret)"
proof (induction dists arbitrary: idx ret)
  case Nil
  then show ?case by simp
next
  case (Cons dist rest)
  show ?case
  proof (cases "Atoi dist")
    case (Pair val eo)
    show ?thesis
    proof (cases eo)
      case None
      from Cons.prems have "Suc idx + length rest
          \<le> length (nd_values (ret\<lparr>nd_values := (nd_values ret)[idx := val]\<rparr>))"
        by simp
      from Cons.IH [OF this] Cons.prems Pair None show ?thesis
        by simp
    next
      case (Some err)
      with Pair show ?thesis by simp
    qed
  qed
qed

lemma nodeDistancesFromString_returns:
  "\<exists>nd e. nodeDistancesFromString n data = Returned (nd, e)
          \<and> (e = None \<longrightarrow> int (length (nd_values nd)) = n)"
proof (cases "int (length (Split data distanceSeparator)) = n")
  case False
  then show ?thesis
    by (simp add: nodeDistancesFromString_def Let_def)
next
  case True
  then have "0 + length (Split data distanceSeparator)
      \<le> length (nd_values \<lparr>nd_values = replicate (nat n) 0\<rparr>)"
    by auto
  from store_values_returns [OF this] True show ?thesis
    by (auto simp: nodeDistancesFromString_def Let_def)
qed

lemma nodeDistancesFromString_length:
  assumes "nodeDistancesFromString n data = Returned (nd, None)"
  shows "int (length (nd_values nd)) = n"
  using nodeDistancesFromString_returns [of n data] assms by auto

lemma read_nodes_returns: "\<exists>r. read_nodes env p n nodes dist = Returned r"
proof (induction nodes arbitrary: dist)
  case Nil
  show ?case by simp
next
  case (Cons m nodes)
  show ?case
  proof (cases "ForNode_ReadFile env p m ''distance''")
    case (Inl err)
    then show ?thesis by simp
  next
    case (Inr data)
    from nodeDistancesFromString_returns [of n data] obtain nd e where
      "nodeDistancesFromString n data = Returned (nd, e)"
      by blast
    with Inr Cons.IH show ?thesis
      by (cases e) (simp_all add: Let_def)
  qed
qed

lemma NewDistancesFromSysfs_returns: "\<exists>r. NewDistancesFromSysfs env sysfs = Returned r"
  using read_nodes_returns by (simp add: NewDistancesFromSysfs_def split: sum.splits)

subsection \<open>The two-node fixture\<close>

lemma nodeDistances_10_20:
  "nodeDistancesFromString 2 ''10 20'' = Returned (\<lparr>nd_values = [10, 20]\<rparr>, None)"
  by code_simp

lemma nodeDistances_20_10:
  "nodeDistancesFromString 2 ''20 10'' = Returned (\<lparr>nd_values = [20, 10]\<rparr>, None)"
  by code_simp

lemma nodeDistances_10:
  "nodeDistancesFromString 1 ''10'' = Returned (\<lparr>nd_values = [10]\<rparr>, None)"
  by code_simp

lemma nodeDistances_a_b:
  "nodeDistancesFromString 2 ''a b'' =
     Returned (\<lparr>nd_values = [0, 0]\<rparr>, Some (NumError ''Atoi'' ''a'' ErrSyntax))"
  by code_simp

lemma Split_10: "Split ''10'' distanceSeparator = [''10'']"
  by code_simp

lemma online_0_1:
  assumes "sorted online" "distinct online" "set online = {0, 1::int}"
  shows "online = [0, 1]"
proof -
  have "sorted [0, 1::int]" "distinct [0, 1::int]" "set [0, 1::int] = {0, 1}"
    by auto
  with assms show ?thesis
    by (metis sorted_distinct_set_unique)
qed

text \<open>
  C5, as stated, fails: the online node set \<open>{0, 1}\<close> does not fix the order in which
  the collaborator enumerates it, and the vectors are stored in that order. Where node 1
  is enumerated before node 0, with the same two files, construction succeeds and
  \<open>BetweenNodes(0, 1)\<close> returns 10, the entry of node 1's file for node 1.
\<close>

theorem two_node_fixture_counterexample:
  "NewNodesFromSysFS two_nodes_reversed ''/sys'' = Inr [1, 0]
   \<and> set [1, 0 :: int] = {0, 1}
   \<and> ForNode_ReadFile two_nodes_reversed ''/sys'' 0 ''distance'' = Inr ''10 20''
   \<and> ForNode_ReadFile two_nodes_reversed ''/sys'' 1 ''distance'' = Inr ''20 10''
   \<and> NewDistancesFromSysfs two_nodes_reversed ''/sys'' =
       Returned (Inr \<lparr>onlineNodes = [1 \<mapsto> True, 0 \<mapsto> True],
                       byNode = [\<lparr>nd_values = [20, 10]\<rparr>, \<lparr>nd_values = [10, 20]\<rparr>]\<rparr>)
   \<and> BetweenNodes \<lparr>onlineNodes = [1 \<mapsto> True, 0 \<mapsto> True],
          byNode = [\<lparr>nd_values = [20, 10]\<rparr>, \<lparr>nd_values = [10, 20]\<rparr>]\<rparr> 0 1
       = Returned (10, None)"
proof -
  have "set [1, 0 :: int] = {0, 1}"
    by auto
  then show ?thesis
    by (simp add: NewDistancesFromSysfs_def two_nodes_reversed_def nodeDistances_10_20
          nodeDistances_20_10 BetweenNodes_def index_def)
qed

text \<open>
  C5, amended. Where the online node set is \<open>{0, 1}\<close> and the collaborator enumerates it
  in ascending order without repetition (node 0, then node 1), and the distance files of
  node 0 and node 1 hold \<open>10 20\<close> and \<open>20 10\<close>, \<open>NewDistancesFromSysfs\<close> succeeds,
  and on its result \<open>BetweenNodes(0, 1)\<close> and \<open>BetweenNodes(1, 0)\<close> both return 20
  with a nil error.
\<close>

theorem two_node_fixture:
  assumes nodes: "NewNodesFromSysFS env sysfs = Inr online"
    and order: "sorted online" "distinct online" "set online = {0, 1}"
    and d0: "ForNode_ReadFile env sysfs 0 ''distance'' = Inr ''10 20''"
    and d1: "ForNode_ReadFile env sysfs 1 ''distance'' = Inr ''20 10''"
  shows "\<exists>d. NewDistancesFromSysfs env sysfs = Returned (Inr d)
           \<and> BetweenNodes d 0 1 = Returned (20, None)
           \<and> BetweenNodes d 1 0 = Returned (20, None)"
proof -
  have online: "online = [0, 1]"
    using order by (rule online_0_1)
  have "NewDistancesFromSysfs env sysfs =
          Returned (Inr \<lparr>onlineNodes = [0 \<mapsto> True, 1 \<mapsto> True],
               byNode = [\<lparr>nd_values = [10, 20]\<rparr>, \<lparr>nd_values = [20, 10]\<rparr>]\<rparr>)"
    by (simp add: NewDistancesFromSysfs_def nodes online d0 d1
          nodeDistances_10_20 nodeDistances_20_10)
  then show ?thesis
    by (simp add: BetweenNodes_def index_def)
qed

theorem two_node_fixture_witness:
  "NewNodesFromSysFS two_nodes ''/sys'' = Inr [0, 1]
   \<and> sorted [0, 1 :: int] \<and> distinct [0, 1 :: int] \<and> set [0, 1 :: int] = {0, 1}
   \<and> ForNode_ReadFile two_nodes ''/sys'' 0 ''distance'' = Inr ''10 20''
   \<and> ForNode_ReadFile two_nodes ''/sys'' 1 ''distance'' = Inr ''20 10''
   \<and> (\<exists>d. NewDistancesFromSysfs two_nodes ''/sys'' = Returned (Inr d)
          \<and> BetweenNodes d 0 1 = Returned (20, None)
          \<and> BetweenNodes d 1 0 = Returned (20, None))"
proof -
  have nodes: "NewNodesFromSysFS two_nodes ''/sys'' = Inr [0, 1]"
    and d0: "ForNode_ReadFile two_nodes ''/sys'' 0 ''distance'' = Inr ''10 20''"
    and d1: "ForNode_ReadFile two_nodes ''/sys'' 1 ''distance'' = Inr ''20 10''"
    by (simp_all add: two_nodes_def)
  have order: "sorted [0, 1 :: int]" "distinct [0, 1 :: int]" "set [0, 1 :: int] = {0, 1}"
    by auto
  from two_node_fixture [OF nodes order d0 d1] nodes order d0 d1 show ?thesis
    by blast
qed

subsection \<open>Queries\<close>

text \<open>
  C2. The claim is that \<open>BetweenNodes\<close> never panics on a value built by
  \<open>NewDistancesFromSysfs\<close>. \<open>byNode\<close> is filled in enumeration order and indexed by node
  ID: with the online nodes 0 and 2, construction succeeds with two vectors of two
  entries, both membership checks pass for the query from node 2 to node 0, and the
  index 2 into \<open>byNode\<close> is out of range.
\<close>

theorem sparse_node_ids_panic:
  "NewDistancesFromSysfs sparse_nodes ''/sys'' =
     Returned (Inr \<lparr>onlineNodes = [0 \<mapsto> True, 2 \<mapsto> True],
          byNode = [\<lparr>nd_values = [10, 20]\<rparr>, \<lparr>nd_values = [20, 10]\<rparr>]\<rparr>)
   \<and> BetweenNodes \<lparr>onlineNodes = [0 \<mapsto> True, 2 \<mapsto> True],
          byNode = [\<lparr>nd_values = [10, 20]\<rparr>, \<lparr>nd_values = [20, 10]\<rparr>]\<rparr> 2 0 = Panicked"
  by (simp add: NewDistancesFromSysfs_def sparse_nodes_def nodeDistances_10_20
        nodeDistances_20_10 BetweenNodes_def index_def)

text \<open>
  C3. The claim is that a query between two members of the online-node set returns the
  stored value without error. On the machine whose only online node is node 1 the built
  value has the member 1 and one vector of one entry, at position 0; the query from node
  1 to node 1 passes both membership checks and returns nothing: it panics.
\<close>

theorem member_query_panics:
  "NewDistancesFromSysfs single_node_1 ''/sys'' =
     Returned (Inr \<lparr>onlineNodes = [1 \<mapsto> True], byNode = [\<lparr>nd_values = [10]\<rparr>]\<rparr>)
   \<and> onlineNodes \<lparr>onlineNodes = [1 \<mapsto> True], byNode = [\<lparr>nd_values = [10]\<rparr>]\<rparr> 1 = Some True
   \<and> BetweenNodes \<lparr>onlineNodes = [1 \<mapsto> True], byNode = [\<lparr>nd_values = [10]\<rparr>]\<rparr> 1 1 = Panicked"
  by (simp add: NewDistancesFromSysfs_def single_node_1_def nodeDistances_10
        BetweenNodes_def index_def)

text \<open>
  What does hold of \<open>BetweenNodes\<close>: an ID outside the online-node set is answered
  with the error that names it, never with a distance; and on a machine whose online
  nodes are \<open>0, ..., k - 1\<close> in this order no query panics.
\<close>

lemma BetweenNodes_unknown:
  "(onlineNodes d from = None \<or> onlineNodes d to = None)
     \<longleftrightarrow> (\<exists>nodeID. BetweenNodes d from to = Returned (- 1, Some (UnknownNUMANode nodeID)))"
  by (auto simp: BetweenNodes_def split: run.splits)

lemma read_nodes_step:
  assumes "read_nodes env p n (m # nodes) dist = Returned (Inr d)"
  obtains data nd where
    "ForNode_ReadFile env p m ''distance'' = Inr data"
    "nodeDistancesFromString n data = Returned (nd, None)"
    "read_nodes env p n nodes
       (dist\<lparr>onlineNodes := (onlineNodes dist)(m \<mapsto> True), byNode := byNode dist @ [nd]\<rparr>)
       = Returned (Inr d)"
  using assms
  by (auto simp: Let_def split: sum.splits prod.splits option.splits run.splits)

lemma read_nodes_shape:
  "read_nodes env p n nodes dist = Returned (Inr d) \<Longrightarrow>
     dom (onlineNodes d) = dom (onlineNodes dist) \<union> set nodes
     \<and> length (byNode d) = length (byNode dist) + length nodes
     \<and> (\<forall>nd\<in>set (byNode d). nd \<in> set (byNode dist) \<or> int (length (nd_values nd)) = n)"
proof (induction nodes arbitrary: dist)
  case Nil
  then show ?case by auto
next
  case (Cons m nodes)
  from Cons.prems obtain data nd where
    b: "nodeDistancesFromString n data = Returned (nd, None)" and
    c: "read_nodes env p n nodes
          (dist\<lparr>onlineNodes := (onlineNodes dist)(m \<mapsto> True), byNode := byNode dist @ [nd]\<rparr>)
          = Returned (Inr d)"
    by (rule read_nodes_step)
  from Cons.IH [OF c] nodeDistancesFromString_length [OF b] show ?case
    by auto
qed

lemma BetweenNodes_contiguous:
  assumes nodes: "NewNodesFromSysFS env sysfs = Inr (map int [0..<k])"
    and built: "NewDistancesFromSysfs env sysfs = Returned (Inr d)"
  shows "BetweenNodes d from to \<noteq> Panicked"
proof -
  have run: "read_nodes env sysfs (int k) (map int [0..<k])
               \<lparr>onlineNodes = Map.empty, byNode = []\<rparr> = Returned (Inr d)"
    using built by (simp add: NewDistancesFromSysfs_def nodes)
  from read_nodes_shape [OF run]
  have members: "dom (onlineNodes d) = int ` {0..<k}"
    and rows: "length (byNode d) = k"
    and cols: "\<forall>nd\<in>set (byNode d). int (length (nd_values nd)) = int k"
    by auto
  show ?thesis
  proof (cases "from \<in> dom (onlineNodes d) \<and> to \<in> dom (onlineNodes d)")
    case False
    then show ?thesis
      by (auto simp: BetweenNodes_def domIff)
  next
    case True
    with members have f: "0 \<le> from" "from < int k" and t: "0 \<le> to" "to < int k"
      by auto
    from f rows have "byNode d ! nat from \<in> set (byNode d)"
      by auto
    with cols have "int (length (nd_values (byNode d ! nat from))) = int k"
      by blast
    with f t rows show ?thesis
      by (auto simp: BetweenNodes_def index_def)
  qed
qed

subsection \<open>Count mismatch\<close>

text \<open>The loop over the online nodes returns with the error of the first node that fails.\<close>

lemma read_nodes_ok_prefix:
  "\<forall>m\<in>set pre. node_error env p n m = None \<Longrightarrow>
   \<exists>dist1. read_nodes env p n (pre @ rest) dist = read_nodes env p n rest dist1"
proof (induction pre arbitrary: dist)
  case Nil
  then show ?case by auto
next
  case (Cons m pre)
  from Cons.prems have ok: "node_error env p n m = None"
    and rest_ok: "\<forall>k\<in>set pre. node_error env p n k = None"
    by auto
  from ok obtain data where data: "ForNode_ReadFile env p m ''distance'' = Inr data"
    by (auto simp: node_error_def split: sum.splits)
  from nodeDistancesFromString_returns [of n data] obtain nd e where
    nd: "nodeDistancesFromString n data = Returned (nd, e)"
    by blast
  with ok data have "e = None"
    by (simp add: node_error_def)
  with data nd Cons.IH [OF rest_ok] show ?case
    by (simp add: Let_def)
qed

lemma read_nodes_fails_at:
  "node_error env p n x = Some err \<Longrightarrow> read_nodes env p n (x # post) dist = Returned (Inl err)"
  by (auto simp: node_error_def Let_def split: sum.splits prod.splits option.splits run.splits)

lemma read_nodes_first_failure:
  assumes "\<forall>m\<in>set pre. node_error env p n m = None" and "node_error env p n x = Some err"
  shows "read_nodes env p n (pre @ x # post) dist = Returned (Inl err)"
  using read_nodes_ok_prefix [OF assms(1), of "x # post" dist] read_nodes_fails_at [OF assms(2)]
  by auto

lemma read_nodes_Inr_all_ok:
  "read_nodes env p n nodes dist = Returned (Inr d) \<Longrightarrow>
   \<forall>m\<in>set nodes. node_error env p n m = None"
proof (induction nodes arbitrary: dist)
  case Nil
  then show ?case by simp
next
  case (Cons m nodes)
  from Cons.prems obtain data nd where
    a: "ForNode_ReadFile env p m ''distance'' = Inr data" and
    b: "nodeDistancesFromString n data = Returned (nd, None)" and
    c: "read_nodes env p n nodes
          (dist\<lparr>onlineNodes := (onlineNodes dist)(m \<mapsto> True), byNode := byNode dist @ [nd]\<rparr>)
          = Returned (Inr d)"
    by (rule read_nodes_step)
  have "node_error env p n m = None"
    using a b by (simp add: node_error_def)
  moreover have "\<forall>k\<in>set nodes. node_error env p n k = None"
    using Cons.IH [OF c] .
  ultimately show ?case by simp
qed

lemma count_mismatch_node_error:
  assumes "ForNode_ReadFile env p nodeID ''distance'' = Inr data"
    and "int (length (Split data distanceSeparator)) \<noteq> n"
  shows "node_error env p n nodeID =
           Some (FoundExpected (int (length (Split data distanceSeparator))) n)"
  using assms by (simp add: node_error_def nodeDistancesFromString_def Let_def)

text \<open>
  C4, as stated, fails: where a node enumerated earlier fails first, the error returned
  is that node's. Here node 1 has one token for two online nodes, node 0 has two tokens
  that are no numbers, and the error is the syntax error of \<open>Atoi\<close> on node 0's first
  token, not the count mismatch.
\<close>

theorem count_mismatch_counterexample:
  "NewNodesFromSysFS early_failure ''/sys'' = Inr [0, 1]
   \<and> ForNode_ReadFile early_failure ''/sys'' 1 ''distance'' = Inr ''10''
   \<and> length (Split ''10'' distanceSeparator) = 1
   \<and> NewDistancesFromSysfs early_failure ''/sys''
       = Returned (Inl (NumError ''Atoi'' ''a'' ErrSyntax))
   \<and> NewDistancesFromSysfs early_failure ''/sys'' \<noteq> Returned (Inl (FoundExpected 1 2))"
  by (simp add: Split_10 NewDistancesFromSysfs_def early_failure_def nodeDistances_a_b)

text \<open>
  C4, amended. Where the enumeration of the online nodes succeeds and the distance file
  of some online node is read with a number of space-separated tokens other than the
  number of online nodes, \<open>NewDistancesFromSysfs\<close> returns an error and no \<open>Distances\<close>
  value (no vector is truncated or padded); the error is the count mismatch with the
  found and the expected count of that node whenever every node enumerated before it is
  read and parsed without error.
\<close>

theorem count_mismatch_fails:
  assumes nodes: "NewNodesFromSysFS env sysfs = Inr online"
    and member: "nodeID \<in> set online"
    and content: "ForNode_ReadFile env sysfs nodeID ''distance'' = Inr data"
    and count: "length (Split data distanceSeparator) \<noteq> length online"
  shows "(\<exists>err. NewDistancesFromSysfs env sysfs = Returned (Inl err))
       \<and> ((\<forall>m\<in>set (takeWhile (\<lambda>m. m \<noteq> nodeID) online).
              node_error env sysfs (int (length online)) m = None)
          \<longrightarrow> NewDistancesFromSysfs env sysfs =
                Returned (Inl (FoundExpected (int (length (Split data distanceSeparator)))
                                 (int (length online)))))"
proof -
  let ?n = "int (length online)"
  let ?start = "\<lparr>onlineNodes = Map.empty, byNode = []\<rparr>"
  have run: "NewDistancesFromSysfs env sysfs = read_nodes env sysfs ?n online ?start"
    by (simp add: NewDistancesFromSysfs_def nodes)
  have bad: "node_error env sysfs ?n nodeID =
               Some (FoundExpected (int (length (Split data distanceSeparator))) ?n)"
    using content count by (intro count_mismatch_node_error) auto
  from read_nodes_returns obtain r where r: "read_nodes env sysfs ?n online ?start = Returned r"
    by blast
  have fails: "\<exists>err. read_nodes env sysfs ?n online ?start = Returned (Inl err)"
  proof (cases r)
    case (Inl err)
    with r show ?thesis by blast
  next
    case (Inr d)
    with r have "read_nodes env sysfs ?n online ?start = Returned (Inr d)"
      by simp
    from read_nodes_Inr_all_ok [OF this] member bad show ?thesis
      by auto
  qed
  have parts: "online = takeWhile (\<lambda>m. m \<noteq> nodeID) online
                 @ nodeID # tl (dropWhile (\<lambda>m. m \<noteq> nodeID) online)"
    using member
    by (metis (mono_tags, lifting) dropWhile_eq_Nil_conv hd_dropWhile list.collapse
          takeWhile_dropWhile_id)
  have first: "read_nodes env sysfs ?n online ?start =
                 Returned (Inl (FoundExpected (int (length (Split data distanceSeparator))) ?n))"
    if "\<forall>m\<in>set (takeWhile (\<lambda>m. m \<noteq> nodeID) online). node_error env sysfs ?n m = None"
    using read_nodes_first_failure [OF that bad] parts by metis
  from fails first show ?thesis
    unfolding run by blast
qed

theorem count_mismatch_fails_witness:
  "(\<exists>err. NewDistancesFromSysfs short_vector ''/sys'' = Returned (Inl err))
   \<and> NewDistancesFromSysfs short_vector ''/sys'' = Returned (Inl (FoundExpected 1 2))"
proof -
  have ok: "node_error short_vector ''/sys'' 2 0 = None"
    by (simp add: node_error_def short_vector_def nodeDistances_10_20)
  have "(\<exists>err. NewDistancesFromSysfs short_vector ''/sys'' = Returned (Inl err))
       \<and> ((\<forall>m\<in>set (takeWhile (\<lambda>m. m \<noteq> 1) [0, 1]).
              node_error short_vector ''/sys'' (int (length [0, 1::int])) m = None)
          \<longrightarrow> NewDistancesFromSysfs short_vector ''/sys'' =
                Returned (Inl (FoundExpected (int (length (Split ''10'' distanceSeparator)))
                                 (int (length [0, 1::int])))))"
    by (rule count_mismatch_fails [where nodeID = 1]) (simp_all add: short_vector_def Split_10)
  then show ?thesis
    by (simp add: Split_10 ok)
qed

section \<open>Properties of package pcidev\<close>

subsection \<open>The scan, entry by entry\<close>

lemma scan_entry_succeeds:
  "entry_ok fs (Join dir e) \<Longrightarrow> \<exists>d. scan_entry fs dir e = Inr d"
  by (auto simp: entry_ok_def stat_ok_def scan_entry_def Let_def
        split: option.splits sum.splits prod.splits)

lemma scan_entry_Inr_ok:
  "scan_entry fs dir e = Inr d \<Longrightarrow> entry_ok fs (Join dir e)"
  by (auto simp: entry_ok_def stat_ok_def scan_entry_def Let_def
        split: option.splits sum.splits prod.splits if_splits)

lemma scan_entries_Inr:
  "scan_entries fs dir es acc = Inr devs \<Longrightarrow>
   \<exists>new. devs = acc @ new \<and> list_all2 (\<lambda>e d. scan_entry fs dir e = Inr d) es new"
proof (induction es arbitrary: acc)
  case Nil
  then show ?case by simp
next
  case (Cons e es)
  from Cons.prems obtain d where d: "scan_entry fs dir e = Inr d"
    and rest: "scan_entries fs dir es (acc @ [d]) = Inr devs"
    by (auto split: sum.splits)
  from Cons.IH [OF rest] obtain new where "devs = (acc @ [d]) @ new"
    and "list_all2 (\<lambda>e d. scan_entry fs dir e = Inr d) es new"
    by blast
  then have "devs = acc @ (d # new)
      \<and> list_all2 (\<lambda>e d. scan_entry fs dir e = Inr d) (e # es) (d # new)"
    using d by simp
  then show ?case by blast
qed

lemma scan_entries_succeeds:
  "\<forall>e\<in>set es. entry_ok fs (Join dir e) \<Longrightarrow> \<exists>devs. scan_entries fs dir es acc = Inr devs"
proof (induction es arbitrary: acc)
  case Nil
  then show ?case by simp
next
  case (Cons e es)
  then obtain d where "scan_entry fs dir e = Inr d"
    using scan_entry_succeeds [of fs dir e] by auto
  with Cons show ?case by simp
qed

lemma NewPCIDevices_succeeds:
  assumes "ReadDir fs (Join sysfs PathBusPCIDevices) = Inr entries"
    and "\<forall>e\<in>set entries. entry_ok fs (Join (Join sysfs PathBusPCIDevices) e)"
  shows "\<exists>pd. NewPCIDevices fs sysfs = Inr pd"
  using scan_entries_succeeds [OF assms(2), of "[]"] assms(1)
  by (auto simp: NewPCIDevices_def Let_def)

lemma NewPCIDevices_Items:
  assumes "ReadDir fs (Join sysfs PathBusPCIDevices) = Inr entries"
    and "NewPCIDevices fs sysfs = Inr pd"
  shows "list_all2 (\<lambda>e d. scan_entry fs (Join sysfs PathBusPCIDevices) e = Inr d)
           entries (Items pd)"
proof -
  from assms obtain devs where
    devs: "scan_entries fs (Join sysfs PathBusPCIDevices) entries [] = Inr devs"
    and pd: "pd = \<lparr>Items = devs\<rparr>"
    by (auto simp: NewPCIDevices_def Let_def split: sum.splits)
  from scan_entries_Inr [OF devs] pd show ?thesis
    by auto
qed

lemma NewPCIDevices_nth:
  assumes "ReadDir fs (Join sysfs PathBusPCIDevices) = Inr entries"
    and "NewPCIDevices fs sysfs = Inr pd" and "i < length entries"
  shows "scan_entry fs (Join sysfs PathBusPCIDevices) (entries ! i) = Inr (Items pd ! i)"
  using NewPCIDevices_Items [OF assms(1,2)] assms(3)
  by (simp add: list_all2_conv_all_nth)

lemma scan_entry_physfn:
  assumes "scan_entry fs dir e = Inr d" and "Stat fs (Join (Join dir e) ''physfn'') = None"
  shows "IsVFn d \<and> ParentFn d =
           (case Readlink fs (Join (Join dir e) ''physfn'') of
              Inr dest \<Rightarrow> Base dest
            | Inl err \<Rightarrow> [])"
  using assms
  by (auto simp: scan_entry_def Let_def split: option.splits sum.splits prod.splits if_splits)


lemma scan_entry_numaNode:
  assumes "scan_entry fs dir e = Inr d"
  shows "numaNode d = fst (readInt fs (Join (Join dir e) ''numa_node''))"
  using assms
  by (auto simp: scan_entry_def Let_def split: option.splits sum.splits prod.splits if_splits)


subsection \<open>The fixtures, evaluated\<close>

lemma devices_dir: "Join ''/sys'' PathBusPCIDevices = ''/sys/bus/pci/devices''"
  by code_simp


lemma dev_0110:
  "Join ''/sys/bus/pci/devices'' ''0000:01:10.0'' = ''/sys/bus/pci/devices/0000:01:10.0''"
  by code_simp


lemma physfn_0110:
  "Join ''/sys/bus/pci/devices/0000:01:10.0'' ''physfn'' =
     ''/sys/bus/pci/devices/0000:01:10.0/physfn''"
  by code_simp

lemma malformed_numa_result:
  "NewPCIDevices malformed_numa ''/sys'' =
     Inr \<lparr>Items = [\<lparr>IsPhysFn = False, NumVFS = 0, IsVFn = False, ParentFn = [],
                     address = ''0000:00:01.0'', numaNode = 0, devClass = 512,
                     vendor = 32902, device = 5409,
                     sysfsPath = ''/sys/bus/pci/devices/0000:00:01.0''\<rparr>]\<rparr>"
  by code_simp

lemma malformed_numa_read:
  "readInt malformed_numa ''/sys/bus/pci/devices/0000:00:01.0/numa_node'' =
     (0, Some (NumError ''Atoi'' ''abc'' ErrSyntax))"
  by code_simp

lemma sriov_machine_devices: "NewPCIDevices sriov_machine ''/sys'' = Inr sriov_devices"
  by code_simp

lemma sriov_machine_dir:
  "ReadDir sriov_machine (Join ''/sys'' PathBusPCIDevices) =
     Inr [''0000:01:00.0'', ''0000:01:10.0'']"
  by code_simp





lemma sriov_machine_link:
  "Stat sriov_machine ''/sys/bus/pci/devices/0000:01:10.0/physfn'' = None"
  "Readlink sriov_machine ''/sys/bus/pci/devices/0000:01:10.0/physfn'' = Inr ''../0000:01:00.0''"
  "Base ''../0000:01:00.0'' = ''0000:01:00.0''"
  by code_simp+



lemma dangling_physfn_link:
  "Readlink dangling_physfn ''/sys/bus/pci/devices/0000:01:10.0/physfn'' = Inr ''../0000:01:00.0''"
  "Stat dangling_physfn ''/sys/bus/pci/devices/0000:01:10.0/physfn'' = Some (OSError ENOENT)"
  by code_simp+

lemma dangling_physfn_result:
  "NewPCIDevices dangling_physfn ''/sys'' =
     Inr \<lparr>Items = [\<lparr>IsPhysFn = False, NumVFS = 0, IsVFn = False, ParentFn = [],
                     address = ''0000:01:10.0'', numaNode = 0, devClass = 512,
                     vendor = 32902, device = 5408,
                     sysfsPath = ''/sys/bus/pci/devices/0000:01:10.0''\<rparr>]\<rparr>"
  by code_simp

lemma physfn_not_a_link_dir:
  "ReadDir physfn_not_a_link (Join ''/sys'' PathBusPCIDevices) = Inr [''0000:01:10.0'']"
  by code_simp

lemma physfn_not_a_link_file:
  "Stat physfn_not_a_link ''/sys/bus/pci/devices/0000:01:10.0/physfn'' = None"
  "Readlink physfn_not_a_link ''/sys/bus/pci/devices/0000:01:10.0/physfn'' = Inl (OSError 22)"
  by code_simp+

lemma physfn_not_a_link_ok:
  "entry_ok physfn_not_a_link ''/sys/bus/pci/devices/0000:01:10.0''"
  by code_simp

subsection \<open>Discovery\<close>

text \<open>
  C1. The claim is that a \<open>numa_node\<close> file whose content is no integer makes
  \<open>NewPCIDevices\<close> return the parse error and no collection. The error of that read is
  never looked at: on the machine with one device whose \<open>numa_node\<close> holds \<open>abc\<close>,
  \<open>readInt\<close> returns 0 with a syntax error, and \<open>NewPCIDevices\<close> returns a collection
  with that device on NUMA node 0 and a nil error.
\<close>

theorem malformed_numa_node_accepted:
  "readInt malformed_numa ''/sys/bus/pci/devices/0000:00:01.0/numa_node'' =
     (0, Some (NumError ''Atoi'' ''abc'' ErrSyntax))
   \<and> NewPCIDevices malformed_numa ''/sys'' =
     Inr \<lparr>Items = [\<lparr>IsPhysFn = False, NumVFS = 0, IsVFn = False, ParentFn = [],
                     address = ''0000:00:01.0'', numaNode = 0, devClass = 512,
                     vendor = 32902, device = 5409,
                     sysfsPath = ''/sys/bus/pci/devices/0000:00:01.0''\<rparr>]\<rparr>"
  by (simp add: malformed_numa_result malformed_numa_read)




text \<open>
  C7, as stated, fails: the presence of \<open>physfn\<close> is tested with \<open>os.Stat\<close>, which
  follows a symbolic link. Where the device directory contains a \<open>physfn\<close> link whose
  target does not exist, \<open>os.Readlink\<close> would read the link, but \<open>os.Stat\<close> answers
  \<open>ENOENT\<close>, and the device is reported with \<open>IsVFn\<close> false and an empty \<open>ParentFn\<close>.
\<close>

theorem physfn_parent_counterexample:
  "Readlink dangling_physfn ''/sys/bus/pci/devices/0000:01:10.0/physfn'' = Inr ''../0000:01:00.0''
   \<and> Stat dangling_physfn ''/sys/bus/pci/devices/0000:01:10.0/physfn'' = Some (OSError ENOENT)
   \<and> NewPCIDevices dangling_physfn ''/sys'' =
     Inr \<lparr>Items = [\<lparr>IsPhysFn = False, NumVFS = 0, IsVFn = False, ParentFn = [],
                     address = ''0000:01:10.0'', numaNode = 0, devClass = 512,
                     vendor = 32902, device = 5408,
                     sysfsPath = ''/sys/bus/pci/devices/0000:01:10.0''\<rparr>]\<rparr>"
  by (simp add: dangling_physfn_link dangling_physfn_result)

text \<open>
  C7, amended. For the device of the \<open>i\<close>-th directory entry of a successful discovery:
  if \<open>os.Stat\<close> finds its \<open>physfn\<close> entry (for a symbolic link: the target of the link
  exists) and \<open>os.Readlink\<close> returns the target \<open>dest\<close> of the link, then \<open>IsVFn\<close> is
  true and \<open>ParentFn\<close> is the base name of \<open>dest\<close>; so where that base name is the
  address \<open>A\<close> of a physical function, \<open>ParentFn\<close> is \<open>A\<close>.
\<close>

theorem physfn_parent:
  assumes dir: "ReadDir fs (Join sysfs PathBusPCIDevices) = Inr entries"
    and found: "NewPCIDevices fs sysfs = Inr pd"
    and i: "i < length entries"
    and physFnPath:
      "physFnPath = Join (Join (Join sysfs PathBusPCIDevices) (entries ! i)) ''physfn''"
    and present: "Stat fs physFnPath = None"
    and link: "Readlink fs physFnPath = Inr dest"
  shows "IsVFn (Items pd ! i) \<and> ParentFn (Items pd ! i) = Base dest
       \<and> (\<forall>A. Base dest = A \<longrightarrow> ParentFn (Items pd ! i) = A)"
proof -
  have scan: "scan_entry fs (Join sysfs PathBusPCIDevices) (entries ! i) = Inr (Items pd ! i)"
    using dir found i by (rule NewPCIDevices_nth)
  from scan_entry_physfn [OF scan] present link show ?thesis
    by (simp add: physFnPath)
qed

theorem physfn_parent_witness:
  "ReadDir sriov_machine (Join ''/sys'' PathBusPCIDevices) = Inr [''0000:01:00.0'', ''0000:01:10.0'']
   \<and> NewPCIDevices sriov_machine ''/sys'' = Inr sriov_devices
   \<and> Join (Join (Join ''/sys'' PathBusPCIDevices) ([''0000:01:00.0'', ''0000:01:10.0''] ! 1))
         ''physfn'' = ''/sys/bus/pci/devices/0000:01:10.0/physfn''
   \<and> Stat sriov_machine ''/sys/bus/pci/devices/0000:01:10.0/physfn'' = None
   \<and> Readlink sriov_machine ''/sys/bus/pci/devices/0000:01:10.0/physfn'' = Inr ''../0000:01:00.0''
   \<and> IsVFn (Items sriov_devices ! 1)
   \<and> ParentFn (Items sriov_devices ! 1) = ''0000:01:00.0''
   \<and> Address (Items sriov_devices ! 0) = ''0000:01:00.0''
   \<and> IsPhysFn (Items sriov_devices ! 0)"
proof -
  have path: "Join (Join (Join ''/sys'' PathBusPCIDevices) ([''0000:01:00.0'', ''0000:01:10.0''] ! 1))
         ''physfn'' = ''/sys/bus/pci/devices/0000:01:10.0/physfn''"
    by (simp add: devices_dir dev_0110 physfn_0110)
  have "IsVFn (Items sriov_devices ! 1)
      \<and> ParentFn (Items sriov_devices ! 1) = Base ''../0000:01:00.0''
      \<and> (\<forall>A. Base ''../0000:01:00.0'' = A \<longrightarrow> ParentFn (Items sriov_devices ! 1) = A)"
    by (rule physfn_parent [OF sriov_machine_dir sriov_machine_devices,
          where physFnPath = "''/sys/bus/pci/devices/0000:01:10.0/physfn''"])
      (simp_all add: devices_dir dev_0110 physfn_0110 sriov_machine_link)
  then have "IsVFn (Items sriov_devices ! 1)
      \<and> ParentFn (Items sriov_devices ! 1) = ''0000:01:00.0''"
    by (simp add: sriov_machine_link)
  moreover have "Address (Items sriov_devices ! 0) = ''0000:01:00.0''
      \<and> IsPhysFn (Items sriov_devices ! 0)"
    by (simp add: sriov_devices_def Address_def)
  ultimately show ?thesis
    using path sriov_machine_dir sriov_machine_devices sriov_machine_link(1,2)
    by simp
qed

text \<open>
  C10. Where the directory can be listed, every step of the scan that can fail succeeds
  for every entry (\<open>entry_ok\<close>: the optional files are present or plainly absent, and
  \<open>class\<close>, \<open>vendor\<close> and \<open>device\<close> are read), and the \<open>physfn\<close> entry of the \<open>i\<close>-th
  device is present but its link cannot be read, \<open>NewPCIDevices\<close> succeeds and reports
  that device with \<open>IsVFn\<close> true and an empty \<open>ParentFn\<close>: the error of \<open>os.Readlink\<close> is
  dropped.
\<close>

theorem unreadable_physfn_link:
  assumes dir: "ReadDir fs (Join sysfs PathBusPCIDevices) = Inr entries"
    and others: "\<forall>e\<in>set entries. entry_ok fs (Join (Join sysfs PathBusPCIDevices) e)"
    and i: "i < length entries"
    and physFnPath:
      "physFnPath = Join (Join (Join sysfs PathBusPCIDevices) (entries ! i)) ''physfn''"
    and present: "Stat fs physFnPath = None"
    and link: "Readlink fs physFnPath = Inl err"
  shows "\<exists>pd. NewPCIDevices fs sysfs = Inr pd
           \<and> IsVFn (Items pd ! i) \<and> ParentFn (Items pd ! i) = []"
proof -
  from NewPCIDevices_succeeds [OF dir others]
  obtain pd where found: "NewPCIDevices fs sysfs = Inr pd" ..
  have scan: "scan_entry fs (Join sysfs PathBusPCIDevices) (entries ! i) = Inr (Items pd ! i)"
    using dir found i by (rule NewPCIDevices_nth)
  from scan_entry_physfn [OF scan] present link
  have "IsVFn (Items pd ! i) \<and> ParentFn (Items pd ! i) = []"
    by (simp add: physFnPath)
  with found show ?thesis
    by blast
qed

theorem unreadable_physfn_link_witness:
  "\<exists>pd. NewPCIDevices physfn_not_a_link ''/sys'' = Inr pd
     \<and> IsVFn (Items pd ! 0) \<and> ParentFn (Items pd ! 0) = []"
  by (rule unreadable_physfn_link [OF physfn_not_a_link_dir,
        where physFnPath = "''/sys/bus/pci/devices/0000:01:10.0/physfn''"
          and err = "OSError 22"])
    (simp_all add: devices_dir dev_0110 physfn_0110 physfn_not_a_link_file
       physfn_not_a_link_ok)

subsection \<open>Grouping by NUMA node\<close>

lemma group_devices_lookup:
  "group_devices devs m k =
     (if k \<in> NUMANode ` set devs
      then Some ((case m k of None \<Rightarrow> [] | Some l \<Rightarrow> l) @ filter (\<lambda>d. NUMANode d = k) devs)
      else m k)"
proof (induction devs arbitrary: m)
  case Nil
  then show ?case by simp
next
  case (Cons d devs)
  have none: "filter (\<lambda>x. NUMANode x = j) devs = []" if "j \<notin> NUMANode ` set devs" for j
    using that by (auto simp: filter_empty_conv)
  show ?case
    by (simp add: Cons.IH Let_def) (auto simp: none split: option.splits)
qed

text \<open>
  C8. \<open>PerNUMA\<close> has exactly the NUMA nodes of the devices as keys, -1 among them when a
  device reports it, and maps each key to the devices on that node, in the order of the
  collection. For devices on the nodes 0, 0, 1 and -1 the keys are 0, 1 and -1, with
  groups of two, one and one device.
\<close>

theorem PerNUMA_groups:
  "PerNUMA pd k =
     (if k \<in> NUMANode ` set (Items pd)
      then Some (filter (\<lambda>d. NUMANode d = k) (Items pd))
      else None)
   \<and> (map NUMANode (Items pd) = [0, 0, 1, - 1] \<longrightarrow>
        dom (PerNUMA pd) = {0, 1, - 1}
        \<and> map_option length (PerNUMA pd 0) = Some 2
        \<and> map_option length (PerNUMA pd 1) = Some 1
        \<and> map_option length (PerNUMA pd (- 1)) = Some 1)"
proof -
  have groups: "PerNUMA pd j =
     (if j \<in> NUMANode ` set (Items pd)
      then Some (filter (\<lambda>d. NUMANode d = j) (Items pd))
      else None)" for j
    by (simp add: PerNUMA_def group_devices_lookup)
  have sizes: "dom (PerNUMA pd) = {0, 1, - 1}
        \<and> map_option length (PerNUMA pd 0) = Some 2
        \<and> map_option length (PerNUMA pd 1) = Some 1
        \<and> map_option length (PerNUMA pd (- 1)) = Some 1"
    if nodes: "map NUMANode (Items pd) = [0, 0, 1, - 1]"
  proof -
    from nodes obtain a b c d where items: "Items pd = [a, b, c, d]"
      and "NUMANode a = 0" "NUMANode b = 0" "NUMANode c = 1" "NUMANode d = - 1"
      by (auto simp: map_eq_Cons_conv)
    then show ?thesis
      by (auto simp: groups dom_def split: if_splits)
  qed
  from groups sizes show ?thesis
    by blast
qed

theorem PerNUMA_groups_witness:
  "PerNUMA four_devices 0 = Some [dev_on ''0000:00:01.0'' 0, dev_on ''0000:00:02.0'' 0]
   \<and> PerNUMA four_devices 1 = Some [dev_on ''0000:80:01.0'' 1]
   \<and> PerNUMA four_devices (- 1) = Some [dev_on ''0000:ff:01.0'' (- 1)]
   \<and> PerNUMA four_devices 2 = None
   \<and> map_option length (PerNUMA four_devices 0) = Some 2
   \<and> map_option length (PerNUMA four_devices 1) = Some 1
   \<and> map_option length (PerNUMA four_devices (- 1)) = Some 1"
proof -
  have nodes: "NUMANode (dev_on a n) = n" for a n
    by (simp add: dev_on_def NUMANode_def)
  have "map NUMANode (Items four_devices) = [0, 0, 1, - 1]"
    by (simp add: four_devices_def nodes)
  then show ?thesis
    using PerNUMA_groups [of four_devices 0] PerNUMA_groups [of four_devices 1]
      PerNUMA_groups [of four_devices "- 1"] PerNUMA_groups [of four_devices 2]
    by (simp add: four_devices_def nodes)
qed

section \<open>Properties of package fakesysfs\<close>

lemma add_entries_append:
  "add_entries h pos (es @ [e]) =
     (case add_entries h pos es of
        Panicked \<Rightarrow> Panicked
      | Returned (t, h1) \<Rightarrow> Add h1 t e None)"
proof (induction es arbitrary: h pos)
  case Nil
  show ?case
    by (simp split: run.splits prod.splits)
next
  case (Cons x es)
  show ?case
    by (simp add: Cons.IH split: run.splits prod.splits)
qed

lemma add_entries_chained: "add_entries h r es = chained_rev h r (rev es)"
proof (induction es rule: rev_induct)
  case Nil
  show ?case by simp
next
  case (snoc e es)
  show ?case
    by (simp add: add_entries_append snoc.IH)
qed

lemma Add_appends_child:
  assumes "wf_heap h" and "objects h t = Some obj"
  shows "\<exists>h1. Add h t nm ats = Returned (next_addr h, h1)
           \<and> next_addr h \<notin> dom (objects h)
           \<and> objects h1 t = Some (obj\<lparr>items := items obj @ [next_addr h]\<rparr>)
           \<and> objects h1 (next_addr h) = Some \<lparr>name = nm, attrs = ats, items = []\<rparr>
           \<and> (\<forall>a. a \<noteq> t \<and> a \<noteq> next_addr h \<longrightarrow> objects h1 a = objects h a)
           \<and> wf_heap h1"
proof -
  from assms have "t \<noteq> next_addr h" and "next_addr h \<notin> dom (objects h)"
    by (auto simp: wf_heap_def)
  with assms show ?thesis
    by (auto simp: Add_def NewTree_def wf_heap_def less_Suc_eq split: if_splits)
qed

lemma add_entries_returns:
  "wf_heap h \<Longrightarrow> pos \<in> dom (objects h) \<Longrightarrow>
   \<exists>pos1 h1. add_entries h pos es = Returned (pos1, h1) \<and> wf_heap h1
              \<and> pos1 \<in> dom (objects h1)"
proof (induction es arbitrary: h pos)
  case Nil
  then show ?case by simp
next
  case (Cons e es)
  from Cons.prems obtain obj where "objects h pos = Some obj"
    by auto
  from Add_appends_child [OF Cons.prems(1) this, of e None] obtain h1 where
    "Add h pos e None = Returned (next_addr h, h1)" "wf_heap h1"
    "next_addr h \<in> dom (objects h1)"
    by auto
  with Cons.IH [of h1 "next_addr h"] show ?case
    by simp
qed

text \<open>
  C9. \<open>AddTree(e1, ..., en)\<close> returns the same handle and leaves the same heap as the
  chained calls \<open>root.Add(e1, nil). ... .Add(en, nil)\<close>. On a heap of the allocator
  with the root allocated both return; and each \<open>Add\<close> on an allocated receiver returns
  a new object with the given name and attributes and no children, appended as the last
  child of the receiver, and changes no other object.
\<close>

theorem AddTree_chained:
  "AddTree h fs es = chained_Add h (root fs) es
   \<and> (wf_heap h \<and> root fs \<in> dom (objects h) \<longrightarrow>
        (\<exists>pos h1. AddTree h fs es = Returned (pos, h1)))
   \<and> (\<forall>t obj nm ats. wf_heap h \<and> objects h t = Some obj \<longrightarrow>
        (\<exists>h1. Add h t nm ats = Returned (next_addr h, h1)
           \<and> next_addr h \<notin> dom (objects h)
           \<and> objects h1 t = Some (obj\<lparr>items := items obj @ [next_addr h]\<rparr>)
           \<and> objects h1 (next_addr h) = Some \<lparr>name = nm, attrs = ats, items = []\<rparr>
           \<and> (\<forall>a. a \<noteq> t \<and> a \<noteq> next_addr h \<longrightarrow> objects h1 a = objects h a)))"
proof (intro conjI impI allI)
  show "AddTree h fs es = chained_Add h (root fs) es"
    by (simp add: AddTree_def chained_Add_def add_entries_chained)
next
  assume "wf_heap h \<and> root fs \<in> dom (objects h)"
  then show "\<exists>pos h1. AddTree h fs es = Returned (pos, h1)"
    using add_entries_returns [of h "root fs" es] by (auto simp: AddTree_def)
next
  fix t obj nm ats
  assume "wf_heap h \<and> objects h t = Some obj"
  then show "\<exists>h1. Add h t nm ats = Returned (next_addr h, h1)
           \<and> next_addr h \<notin> dom (objects h)
           \<and> objects h1 t = Some (obj\<lparr>items := items obj @ [next_addr h]\<rparr>)
           \<and> objects h1 (next_addr h) = Some \<lparr>name = nm, attrs = ats, items = []\<rparr>
           \<and> (\<forall>a. a \<noteq> t \<and> a \<noteq> next_addr h \<longrightarrow> objects h1 a = objects h a)"
    using Add_appends_child [of h t obj nm ats] by blast
qed

lemma fresh_sysfs_root:
  "objects (snd fresh_sysfs) 0 = Some \<lparr>name = ''_'', attrs = None, items = []\<rparr>"
  "next_addr (snd fresh_sysfs) = 1" "root (fst fresh_sysfs) = 0"
  by (simp_all add: fresh_sysfs_def NewFakeSysfs_def NewTree_def empty_heap_def)

theorem AddTree_chained_witness:
  "wf_heap (snd fresh_sysfs)
   \<and> root (fst fresh_sysfs) \<in> dom (objects (snd fresh_sysfs))
   \<and> AddTree (snd fresh_sysfs) (fst fresh_sysfs) [''bus'', ''pci''] = Returned (2, built_heap)
   \<and> chained_Add (snd fresh_sysfs) (root (fst fresh_sysfs)) [''bus'', ''pci'']
       = Returned (2, built_heap)
   \<and> (\<exists>h1. Add (snd fresh_sysfs) 0 ''bus'' None = Returned (1, h1)
          \<and> objects h1 0 = Some \<lparr>name = ''_'', attrs = None, items = [1]\<rparr>
          \<and> objects h1 1 = Some \<lparr>name = ''bus'', attrs = None, items = []\<rparr>)"
proof -
  have wf: "wf_heap (snd fresh_sysfs)"
    by (simp add: fresh_sysfs_def NewFakeSysfs_def NewTree_def empty_heap_def wf_heap_def)
  have run: "AddTree (snd fresh_sysfs) (fst fresh_sysfs) [''bus'', ''pci'']
               = Returned (2, built_heap)"
    by (simp add: fresh_sysfs_def NewFakeSysfs_def NewTree_def empty_heap_def AddTree_def
          Add_def built_heap_def fun_upd_twist numeral_2_eq_2)
  note T = AddTree_chained [of "snd fresh_sysfs" "fst fresh_sysfs" "[''bus'', ''pci'']"]
  from T run have chain: "chained_Add (snd fresh_sysfs) (root (fst fresh_sysfs)) [''bus'', ''pci'']
       = Returned (2, built_heap)"
    by simp
  from T wf fresh_sysfs_root(1)
  have "\<exists>h1. Add (snd fresh_sysfs) 0 ''bus'' None = Returned (next_addr (snd fresh_sysfs), h1)
          \<and> next_addr (snd fresh_sysfs) \<notin> dom (objects (snd fresh_sysfs))
          \<and> objects h1 0 = Some (\<lparr>name = ''_'', attrs = None, items = []\<rparr>
                \<lparr>items := items \<lparr>name = ''_'', attrs = None, items = []\<rparr> @ [next_addr (snd fresh_sysfs)]\<rparr>)
          \<and> objects h1 (next_addr (snd fresh_sysfs)) = Some \<lparr>name = ''bus'', attrs = None, items = []\<rparr>
          \<and> (\<forall>a. a \<noteq> 0 \<and> a \<noteq> next_addr (snd fresh_sysfs) \<longrightarrow> objects h1 a = objects (snd fresh_sysfs) a)"
    by blast
  then have add: "\<exists>h1. Add (snd fresh_sysfs) 0 ''bus'' None = Returned (1, h1)
          \<and> objects h1 0 = Some \<lparr>name = ''_'', attrs = None, items = [1]\<rparr>
          \<and> objects h1 1 = Some \<lparr>name = ''bus'', attrs = None, items = []\<rparr>"
    by (auto simp: fresh_sysfs_root)
  have allocated: "root (fst fresh_sysfs) \<in> dom (objects (snd fresh_sysfs))"
    using fresh_sysfs_root by (simp add: domIff)
  from wf allocated run chain add show ?thesis
    by simp
qed

end
